theory Spec2Isabelle
  imports Main "HOL-Library.Word"
begin

unbundle bit_operations_syntax

section \<open>Binary and counting semaphores (semaphore.h, semaphore.c)\<close>

text \<open>
  The C integer types of the source: \<open>uint8_t\<close> semaphore identifiers, \<open>uint16_t\<close>
  resource counters, the \<open>uint32_t\<close> bit vector of the binary semaphores and the
  \<open>unsigned long long\<close> mask \<open>1ULL << sem_id\<close>. Arithmetic on words wraps around as the
  C arithmetic on these unsigned types does after conversion to the result type.
\<close>

type_synonym u8 = "8 word"
type_synonym u16 = "16 word"
type_synonym u32 = "32 word"
type_synonym u64 = "64 word"

subsection \<open>Binary semaphores\<close>

text \<open>The macros of semaphore.h, each with its \<open>(uint8_t)\<close> cast.\<close>

definition BINARY_SEMAPHORE_LIMIT :: u8 where
  "BINARY_SEMAPHORE_LIMIT = 32"

definition BINARY_SEMAPHORE_ID_MIN :: u8 where
  "BINARY_SEMAPHORE_ID_MIN = 0"

definition BINARY_SEMAPHORE_ID_MAX :: u8 where
  "BINARY_SEMAPHORE_ID_MAX = BINARY_SEMAPHORE_LIMIT - 1"

text \<open>The expression \<open>1ULL << sem_id\<close>, a 64-bit value.\<close>

definition sem_bit :: "u8 \<Rightarrow> u64" where
  "sem_bit sem_id = push_bit (unat sem_id) 1"

text \<open>
  The state is the file-scope variable \<open>binary_semaphores\<close>, passed in and returned.
  Line 36 of semaphore.c, \<open>while (binary_semaphores & (1ULL << sem_id));\<close>, has an empty
  body: executed by one caller with nobody else writing the variable, it either falls through
  at once or never ends. Not returning is the value \<open>None\<close>.
\<close>

partial_function (option) binary_semaphore_take_loop :: "u32 \<Rightarrow> u8 \<Rightarrow> unit option" where
  "binary_semaphore_take_loop binary_semaphores sem_id =
     (if ucast binary_semaphores AND sem_bit sem_id \<noteq> 0
      then binary_semaphore_take_loop binary_semaphores sem_id
      else Some ())"

text \<open>
  \<open>binary_semaphore_take\<close>: the returned pair is the function's \<open>bool\<close> result and the
  new value of \<open>binary_semaphores\<close>. The operands of \<open>|=\<close> are 64 bits wide and the result
  is converted back to 32 bits on assignment.
\<close>

definition binary_semaphore_take :: "u32 \<Rightarrow> u8 \<Rightarrow> (bool \<times> u32) option" where
  "binary_semaphore_take binary_semaphores sem_id =
     (if sem_id > BINARY_SEMAPHORE_ID_MAX then Some (False, binary_semaphores)
      else case binary_semaphore_take_loop binary_semaphores sem_id of
             None \<Rightarrow> None
           | Some _ \<Rightarrow> Some (True, ucast (ucast binary_semaphores OR sem_bit sem_id)))"

definition binary_semaphore_release :: "u32 \<Rightarrow> u8 \<Rightarrow> bool \<times> u32" where
  "binary_semaphore_release binary_semaphores sem_id =
     (if sem_id > BINARY_SEMAPHORE_ID_MAX then (False, binary_semaphores)
      else (True, ucast (ucast binary_semaphores AND NOT (sem_bit sem_id))))"

subsection \<open>Counting semaphores in C\<close>

record counting_semaphore =
  num_reserved_resources :: u16
  num_total_resources :: u16

text \<open>
  The heap holds the allocated semaphores by address; a handle is an address and the null
  pointer is \<open>None\<close>. \<open>malloc\<close> belongs to the C library: it is a parameter that, given the
  heap, answers with an address or with \<open>None\<close> when the allocation fails.
\<close>

type_synonym addr = nat
type_synonym heap = "addr \<rightharpoonup> counting_semaphore"

definition counting_semaphore_new ::
  "(heap \<Rightarrow> addr option) \<Rightarrow> heap \<Rightarrow> u16 \<Rightarrow> addr option \<times> heap" where
  "counting_semaphore_new malloc h num_resources =
     (if num_resources = 0 then (None, h)
      else case malloc h of
             None \<Rightarrow> (None, h)
           | Some self \<Rightarrow>
               (Some self,
                h(self \<mapsto> \<lparr>num_reserved_resources = 0,
                              num_total_resources = num_resources\<rparr>)))"

text \<open>The remaining functions read and write the structure their argument points to.\<close>

definition counting_semaphore_num_reserved :: "counting_semaphore \<Rightarrow> u16" where
  "counting_semaphore_num_reserved self = num_reserved_resources self"

definition counting_semaphore_num_available :: "counting_semaphore \<Rightarrow> u16" where
  "counting_semaphore_num_available self =
     num_total_resources self - num_reserved_resources self"

text \<open>Line 105, the empty-bodied loop of \<open>counting_semaphore_take\<close>.\<close>

partial_function (option) counting_semaphore_take_loop :: "counting_semaphore \<Rightarrow> unit option" where
  "counting_semaphore_take_loop self =
     (if num_reserved_resources self \<ge> num_total_resources self
      then counting_semaphore_take_loop self
      else Some ())"

definition counting_semaphore_take :: "counting_semaphore \<Rightarrow> counting_semaphore option" where
  "counting_semaphore_take self =
     (case counting_semaphore_take_loop self of
        None \<Rightarrow> None
      | Some _ \<Rightarrow> Some (self\<lparr>num_reserved_resources := num_reserved_resources self + 1\<rparr>))"

definition counting_semaphore_release :: "counting_semaphore \<Rightarrow> counting_semaphore" where
  "counting_semaphore_release self =
     (if num_reserved_resources self > 0
      then self\<lparr>num_reserved_resources := num_reserved_resources self - 1\<rparr>
      else self)"

subsection \<open>The C++ class template\<close>

text \<open>
  \<open>counting_semaphore<num_resources>\<close> has the single member \<open>num_reserved_resources_\<close>,
  initialised to 0; the template argument takes the place of \<open>num_total_resources\<close>.
  Each member function gets the template argument and the member's value.
\<close>

definition cpp_num_reserved_resources :: "u16 \<Rightarrow> u16 \<Rightarrow> u16" where
  "cpp_num_reserved_resources num_resources num_reserved = num_reserved"

definition cpp_num_available_resources :: "u16 \<Rightarrow> u16 \<Rightarrow> u16" where
  "cpp_num_available_resources num_resources num_reserved = num_resources - num_reserved"

partial_function (option) cpp_take_loop :: "u16 \<Rightarrow> u16 \<Rightarrow> unit option" where
  "cpp_take_loop num_resources num_reserved =
     (if num_reserved \<ge> num_resources
      then cpp_take_loop num_resources num_reserved
      else Some ())"

definition cpp_take :: "u16 \<Rightarrow> u16 \<Rightarrow> u16 option" where
  "cpp_take num_resources num_reserved =
     (case cpp_take_loop num_resources num_reserved of
        None \<Rightarrow> None
      | Some _ \<Rightarrow> Some (num_reserved + 1))"

definition cpp_release :: "u16 \<Rightarrow> u16 \<Rightarrow> u16" where
  "cpp_release num_resources num_reserved =
     (if num_reserved > 0 then num_reserved - 1 else num_reserved)"

subsection \<open>Sequences of calls by one caller\<close>

datatype sem_op = Take | Release

fun apply_op :: "counting_semaphore \<Rightarrow> sem_op \<Rightarrow> counting_semaphore option" where
  "apply_op self Take = counting_semaphore_take self"
| "apply_op self Release = Some (counting_semaphore_release self)"

text \<open>A sequence of calls stops for good at a take that never returns.\<close>

fun run_ops :: "counting_semaphore \<Rightarrow> sem_op list \<Rightarrow> counting_semaphore option" where
  "run_ops self [] = Some self"
| "run_ops self (x # xs) =
     (case apply_op self x of None \<Rightarrow> None | Some self' \<Rightarrow> run_ops self' xs)"

subsection \<open>Threads sharing one counting semaphore\<close>

text \<open>
  Each thread runs the loop of \<open>run_thread\<close> in main\_counting\_sem.c on one semaphore:
  \<open>counting_semaphore_take\<close>, the protected section, \<open>counting_semaphore_release\<close>. A
  thread is at one of three places: evaluating the loop condition of line 105, about to execute
  the increment of line 106, or past the take and before its release. The two statements of
  \<open>counting_semaphore_take\<close> are separate steps, as nothing in the source joins them; the
  release is taken as one step.
\<close>

datatype pc = Line105 | Line106 | Reserved

fun thread_step :: "counting_semaphore \<Rightarrow> pc \<Rightarrow> counting_semaphore \<times> pc" where
  "thread_step self Line105 =
     (self, if num_reserved_resources self \<ge> num_total_resources self then Line105 else Line106)"
| "thread_step self Line106 =
     (self\<lparr>num_reserved_resources := num_reserved_resources self + 1\<rparr>, Reserved)"
| "thread_step self Reserved = (counting_semaphore_release self, Line105)"

record threads =
  sem :: counting_semaphore
  pcs :: "pc list"

definition step :: "threads \<Rightarrow> nat \<Rightarrow> threads" where
  "step c i =
     (if i < length (pcs c)
      then case thread_step (sem c) (pcs c ! i) of
             (self', p') \<Rightarrow> \<lparr>sem = self', pcs = (pcs c)[i := p']\<rparr>
      else c)"

text \<open>A schedule names the thread that makes each next step.\<close>

definition run_schedule :: "threads \<Rightarrow> nat list \<Rightarrow> threads" where
  "run_schedule c schedule = foldl step c schedule"

definition start :: "u16 \<Rightarrow> nat \<Rightarrow> threads" where
  "start num_resources k =
     \<lparr>sem = \<lparr>num_reserved_resources = 0, num_total_resources = num_resources\<rparr>,
      pcs = replicate k Line105\<rparr>"

text \<open>The threads that have completed a take and not yet released.\<close>

definition holders :: "threads \<Rightarrow> nat" where
  "holders c = length (filter (\<lambda>p. p = Reserved) (pcs c))"

subsection \<open>One binary semaphore against a counting semaphore of one resource\<close>

text \<open>
  The relation between a counting semaphore with a single resource and the bit \<open>sem_id\<close>
  of the binary semaphores: the resource is reserved exactly when the bit is set.
\<close>

definition slot_rel :: "u8 \<Rightarrow> counting_semaphore \<Rightarrow> u32 \<Rightarrow> bool" where
  "slot_rel sem_id self binary_semaphores \<longleftrightarrow>
     num_total_resources self = 1 \<and>
     num_reserved_resources self = (if bit binary_semaphores (unat sem_id) then 1 else 0)"

section \<open>Properties\<close>

subsection \<open>The loops\<close>

lemma binary_semaphore_take_loop_Some:
  "binary_semaphore_take_loop s i = Some u \<Longrightarrow> ucast s AND sem_bit i = 0"
  by (erule binary_semaphore_take_loop.raw_induct
        [rotated 1, where P = "\<lambda>s i u. ucast s AND sem_bit i = 0"])
     (simp split: if_splits)

lemma binary_semaphore_take_loop_eq:
  "binary_semaphore_take_loop s i = (if ucast s AND sem_bit i = 0 then Some () else None)"
proof (cases "ucast s AND sem_bit i = 0")
  case True
  then show ?thesis by (subst binary_semaphore_take_loop.simps) simp
next
  case False
  then have "binary_semaphore_take_loop s i = None"
    using binary_semaphore_take_loop_Some [of s i]
    by (cases "binary_semaphore_take_loop s i") auto
  with False show ?thesis by simp
qed

lemma counting_semaphore_take_loop_Some:
  "counting_semaphore_take_loop self = Some u \<Longrightarrow>
     num_reserved_resources self < num_total_resources self"
  by (erule counting_semaphore_take_loop.raw_induct
        [rotated 1, where P = "\<lambda>self u. num_reserved_resources self < num_total_resources self"])
     (simp split: if_splits)

lemma counting_semaphore_take_loop_eq:
  "counting_semaphore_take_loop self =
     (if num_reserved_resources self < num_total_resources self then Some () else None)"
proof (cases "num_reserved_resources self < num_total_resources self")
  case True
  then have "\<not> num_total_resources self \<le> num_reserved_resources self" by simp
  with True show ?thesis by (subst counting_semaphore_take_loop.simps) simp
next
  case False
  then have "counting_semaphore_take_loop self = None"
    using counting_semaphore_take_loop_Some [of self]
    by (cases "counting_semaphore_take_loop self") auto
  with False show ?thesis by simp
qed

lemma cpp_take_loop_Some:
  "cpp_take_loop n r = Some u \<Longrightarrow> r < n"
  by (erule cpp_take_loop.raw_induct [rotated 1, where P = "\<lambda>n r u. r < n"])
     (simp split: if_splits)

lemma cpp_take_loop_eq:
  "cpp_take_loop n r = (if r < n then Some () else None)"
proof (cases "r < n")
  case True
  then have "\<not> n \<le> r" by simp
  with True show ?thesis by (subst cpp_take_loop.simps) simp
next
  case False
  then have "cpp_take_loop n r = None"
    using cpp_take_loop_Some [of n r] by (cases "cpp_take_loop n r") auto
  with False show ?thesis by simp
qed

subsection \<open>Binary semaphores: taking and releasing\<close>

lemma BINARY_SEMAPHORE_ID_MAX_eq: "BINARY_SEMAPHORE_ID_MAX = 31"
  by (simp add: BINARY_SEMAPHORE_ID_MAX_def BINARY_SEMAPHORE_LIMIT_def)

lemma sem_id_valid: "(sem_id :: u8) \<le> 31 \<Longrightarrow> unat sem_id < 32"
  by (simp add: word_le_nat_alt)

lemma push_bit_1_neq_0: "n < 64 \<Longrightarrow> (push_bit n 1 :: u64) \<noteq> 0"
proof
  assume lt: "n < 64" and "(push_bit n 1 :: u64) = 0"
  then have "bit (push_bit n 1 :: u64) n = bit (0::u64) n" by simp
  then show False using lt by (simp add: bit_simps)
qed

lemma and_push_bit: "n < 32 \<Longrightarrow>
  (ucast (s::u32) AND push_bit n 1 :: u64) = (if bit s n then push_bit n 1 else 0)"
  by (intro bit_word_eqI) (auto simp add: bit_simps)

lemma test_sem_bit:
  "sem_id \<le> 31 \<Longrightarrow> (ucast (s::u32) AND sem_bit sem_id = 0) \<longleftrightarrow> \<not> bit s (unat sem_id)"
  unfolding sem_bit_def
  using and_push_bit [of "unat sem_id" s] push_bit_1_neq_0 [of "unat sem_id"] sem_id_valid [of sem_id]
  by (cases "bit s (unat sem_id)") simp_all

lemma or_sem_bit: "sem_id \<le> 31 \<Longrightarrow>
  (ucast ((ucast (s::u32) :: u64) OR sem_bit sem_id) :: u32) = s OR 2 ^ unat sem_id"
  unfolding sem_bit_def using sem_id_valid [of sem_id]
  by (intro bit_word_eqI) (auto simp add: bit_simps)

lemma and_not_sem_bit: "sem_id \<le> 31 \<Longrightarrow>
  (ucast ((ucast (s::u32) :: u64) AND NOT (sem_bit sem_id)) :: u32)
     = s AND NOT (2 ^ unat sem_id)"
  unfolding sem_bit_def using sem_id_valid [of sem_id]
  by (intro bit_word_eqI) (auto simp add: bit_simps)

lemma binary_semaphore_take_valid:
  assumes "sem_id \<le> 31"
  shows "binary_semaphore_take s sem_id =
     (if bit s (unat sem_id) then None else Some (True, s OR 2 ^ unat sem_id))"
proof -
  have "\<not> sem_id > BINARY_SEMAPHORE_ID_MAX"
    using assms by (simp add: BINARY_SEMAPHORE_ID_MAX_eq leD)
  then show ?thesis
    by (simp add: binary_semaphore_take_def binary_semaphore_take_loop_eq
        test_sem_bit [OF assms] or_sem_bit [OF assms])
qed

lemma binary_semaphore_release_valid:
  assumes "sem_id \<le> 31"
  shows "binary_semaphore_release s sem_id = (True, s AND NOT (2 ^ unat sem_id))"
proof -
  have "\<not> sem_id > BINARY_SEMAPHORE_ID_MAX"
    using assms by (simp add: BINARY_SEMAPHORE_ID_MAX_eq leD)
  then show ?thesis
    by (simp add: binary_semaphore_release_def and_not_sem_bit [OF assms])
qed

lemma bit_or_push_bit: "n < 32 \<Longrightarrow>
  bit ((s::u32) OR 2 ^ n) j \<longleftrightarrow> (if j = n then True else bit s j)"
  by (auto simp add: bit_simps)

lemma bit_and_not_push_bit: "n < 32 \<Longrightarrow>
  bit ((s::u32) AND NOT (2 ^ n)) j \<longleftrightarrow> (if j = n then False else bit s j)"
  by (auto simp add: bit_simps dest: bit_imp_le_length)

lemma binary_semaphore_take_invalid:
  "sem_id > 31 \<Longrightarrow> binary_semaphore_take s sem_id = Some (False, s)"
  by (simp add: binary_semaphore_take_def BINARY_SEMAPHORE_ID_MAX_eq)

lemma binary_semaphore_release_invalid:
  "sem_id > 31 \<Longrightarrow> binary_semaphore_release s sem_id = (False, s)"
  by (simp add: binary_semaphore_release_def BINARY_SEMAPHORE_ID_MAX_eq)


text \<open>
  Claim C5. For a semaphore identifier in the range 0 to 31, \<open>binary_semaphore_take\<close>
  returns exactly when the bit of that identifier is clear in \<open>binary_semaphores\<close>
  (with the bit set, the loop of line 36 never ends); when it returns, its result is true and
  the bit of the identifier is set in the new value of \<open>binary_semaphores\<close>.
\<close>

theorem binary_semaphore_take_reserves:
  "sem_id \<le> 31 \<Longrightarrow>
     (binary_semaphore_take binary_semaphores sem_id \<noteq> None)
        = (\<not> bit binary_semaphores (unat sem_id)) \<and>
     (\<forall>r. binary_semaphore_take binary_semaphores sem_id = Some r \<longrightarrow>
          fst r \<and> bit (snd r) (unat sem_id))"
  using sem_id_valid [of sem_id]
  by (auto simp add: binary_semaphore_take_valid bit_or_push_bit)

theorem binary_semaphore_take_reserves_witness:
  "(1::u8) \<le> 31 \<and> \<not> bit (5::u32) (unat (1::u8)) \<and>
   binary_semaphore_take 5 1 \<noteq> None \<and>
   (\<exists>r. binary_semaphore_take 5 1 = Some r \<and> fst r \<and> bit (snd r) (unat (1::u8))) \<and>
   bit (5::u32) (unat (2::u8)) \<and> binary_semaphore_take 5 2 = None"
proof -
  have a: "(1::u8) \<le> 31" and b: "(2::u8) \<le> 31" by simp_all
  have c: "\<not> bit (5::u32) (unat (1::u8))" and d: "bit (5::u32) (unat (2::u8))"
    by simp_all
  have e: "binary_semaphore_take 5 1 \<noteq> None"
    using c binary_semaphore_take_reserves [OF a, of 5] by simp
  then obtain r where r: "binary_semaphore_take 5 1 = Some r" by blast
  then have f: "fst r \<and> bit (snd r) (unat (1::u8))"
    using binary_semaphore_take_reserves [OF a, of 5] by blast
  have g: "binary_semaphore_take 5 2 = None"
    using d binary_semaphore_take_reserves [OF b, of 5]
    by (cases "binary_semaphore_take 5 2") simp_all
  show ?thesis
    using a c d e r f g by blast
qed

text \<open>
  Claim C6. For a semaphore identifier above 31 (the type \<open>uint8_t\<close> leaves 32 to 255),
  \<open>binary_semaphore_take\<close> and \<open>binary_semaphore_release\<close> both return false and
  \<open>binary_semaphores\<close> keeps its value.
\<close>

theorem binary_semaphore_invalid_id:
  "sem_id > 31 \<Longrightarrow>
     binary_semaphore_take binary_semaphores sem_id = Some (False, binary_semaphores) \<and>
     binary_semaphore_release binary_semaphores sem_id = (False, binary_semaphores)"
  by (simp add: binary_semaphore_take_invalid binary_semaphore_release_invalid)

theorem binary_semaphore_invalid_id_witness:
  "(32::u8) > 31 \<and> (255::u8) > 31 \<and>
   binary_semaphore_take 5 32 = Some (False, 5) \<and>
   binary_semaphore_release 5 32 = (False, 5) \<and>
   binary_semaphore_take 0xFFFFFFFF 255 = Some (False, 0xFFFFFFFF) \<and>
   binary_semaphore_release 0xFFFFFFFF 255 = (False, 0xFFFFFFFF)"
proof -
  have a: "(32::u8) > 31" and b: "(255::u8) > 31" by simp_all
  show ?thesis
    using a b binary_semaphore_invalid_id [OF a, of 5]
      binary_semaphore_invalid_id [OF b, of "0xFFFFFFFF"]
    by simp
qed

text \<open>
  Claim C7. For a semaphore identifier in the range 0 to 31, \<open>binary_semaphore_release\<close>
  returns true and the bit of the identifier is clear afterwards, whatever the value of
  \<open>binary_semaphores\<close> was before: the function looks neither at the old bit nor at the
  caller.
\<close>

theorem binary_semaphore_release_clears_bit:
  "sem_id \<le> 31 \<Longrightarrow>
     fst (binary_semaphore_release binary_semaphores sem_id) \<and>
     \<not> bit (snd (binary_semaphore_release binary_semaphores sem_id)) (unat sem_id)"
  using sem_id_valid [of sem_id]
  by (simp add: binary_semaphore_release_valid bit_and_not_push_bit)

theorem binary_semaphore_release_clears_bit_witness:
  "(2::u8) \<le> 31 \<and> (1::u8) \<le> 31 \<and>
   bit (5::u32) (unat (2::u8)) \<and>
   fst (binary_semaphore_release 5 2) \<and> \<not> bit (snd (binary_semaphore_release 5 2)) (unat (2::u8)) \<and>
   \<not> bit (5::u32) (unat (1::u8)) \<and>
   fst (binary_semaphore_release 5 1) \<and> \<not> bit (snd (binary_semaphore_release 5 1)) (unat (1::u8))"
proof -
  have a: "(2::u8) \<le> 31" and b: "(1::u8) \<le> 31" by simp_all
  have c: "\<not> bit (5::u32) (unat (1::u8))" and d: "bit (5::u32) (unat (2::u8))"
    by simp_all
  show ?thesis
    using a b c d binary_semaphore_release_clears_bit [OF a, of 5]
      binary_semaphore_release_clears_bit [OF b, of 5]
    by simp
qed

text \<open>
  Claim C10. For a semaphore identifier in the range 0 to 31, a completed
  \<open>binary_semaphore_take\<close> and a \<open>binary_semaphore_release\<close> leave every bit of
  \<open>binary_semaphores\<close> other than the identifier's own as it was.
\<close>

theorem binary_semaphore_other_bits_unchanged:
  "sem_id \<le> 31 \<Longrightarrow> j \<noteq> unat sem_id \<Longrightarrow>
     (\<forall>r. binary_semaphore_take binary_semaphores sem_id = Some r \<longrightarrow>
          bit (snd r) j = bit binary_semaphores j) \<and>
     bit (snd (binary_semaphore_release binary_semaphores sem_id)) j = bit binary_semaphores j"
  using sem_id_valid [of sem_id]
  by (simp add: binary_semaphore_take_valid binary_semaphore_release_valid
      bit_or_push_bit bit_and_not_push_bit)

theorem binary_semaphore_other_bits_unchanged_witness:
  "(1::u8) \<le> 31 \<and> (2::nat) \<noteq> unat (1::u8) \<and> (0::nat) \<noteq> unat (1::u8) \<and>
   binary_semaphore_take 4 1 = Some (True, 6) \<and>
   bit (6::u32) 2 = bit (4::u32) 2 \<and>
   bit (snd (binary_semaphore_release 7 1)) 0 = bit (7::u32) 0 \<and>
   bit (snd (binary_semaphore_release 7 1)) 2 = bit (7::u32) 2"
proof -
  have a: "(1::u8) \<le> 31" by simp
  have b: "(2::nat) \<noteq> unat (1::u8)" and c: "(0::nat) \<noteq> unat (1::u8)" by simp_all
  have d: "binary_semaphore_take 4 1 = Some (True, 6)"
    by (simp add: binary_semaphore_take_valid)
  show ?thesis
    using a b c d binary_semaphore_other_bits_unchanged [OF a b, of 4]
      binary_semaphore_other_bits_unchanged [OF a b, of 7]
      binary_semaphore_other_bits_unchanged [OF a c, of 7]
    by simp
qed


subsection \<open>Counting semaphores: taking and releasing\<close>

lemma counting_semaphore_take_eq:
  "counting_semaphore_take self =
     (if num_reserved_resources self < num_total_resources self
      then Some (self\<lparr>num_reserved_resources := num_reserved_resources self + 1\<rparr>)
      else None)"
  by (simp add: counting_semaphore_take_def counting_semaphore_take_loop_eq)

lemma uint_incr: "(r::u16) < n \<Longrightarrow> uint (r + 1) = uint r + 1"
proof -
  assume "r < n"
  then have "uint r < uint n" by (simp add: word_less_def)
  moreover have "uint n < 2 ^ 16" using uint_bounded [of n] by simp
  ultimately have "uint r + 1 < 2 ^ 16" by linarith
  then show ?thesis by (simp add: uint_word_ariths uint_ge_0 mod_pos_pos_trivial)
qed

lemma uint_decr: "0 < (r::u16) \<Longrightarrow> uint (r - 1) = uint r - 1"
proof -
  assume "0 < r"
  then have "0 < uint r" by (simp add: word_less_def)
  moreover have "uint r < 2 ^ 16" using uint_bounded [of r] by simp
  ultimately have "0 \<le> uint r - 1" and "uint r - 1 < 2 ^ 16" by linarith+
  then show ?thesis by (simp add: uint_word_ariths mod_pos_pos_trivial)
qed

lemma counting_semaphore_release_uint:
  "uint (num_reserved_resources (counting_semaphore_release self))
     = max (uint (num_reserved_resources self) - 1) 0"
proof (cases "0 < num_reserved_resources self")
  case True
  then have "0 < uint (num_reserved_resources self)" by (simp add: word_less_def)
  with True show ?thesis by (simp add: counting_semaphore_release_def uint_decr)
next
  case False
  then have "num_reserved_resources self = 0" by (simp add: word_greater_zero_iff)
  then show ?thesis by (simp add: counting_semaphore_release_def)
qed

lemma counting_semaphore_release_total:
  "num_total_resources (counting_semaphore_release self) = num_total_resources self"
  by (simp add: counting_semaphore_release_def)

lemma counting_semaphore_release_le:
  "num_reserved_resources self \<le> num_total_resources self \<Longrightarrow>
   num_reserved_resources (counting_semaphore_release self) \<le> num_total_resources self"
  using counting_semaphore_release_uint [of self]
  by (simp add: word_le_def)

lemma counting_semaphore_take_le:
  "counting_semaphore_take self = Some self' \<Longrightarrow>
   num_reserved_resources self' \<le> num_total_resources self' \<and>
   num_total_resources self' = num_total_resources self"
  using uint_incr [of "num_reserved_resources self" "num_total_resources self"]
  by (auto simp add: counting_semaphore_take_eq word_le_def word_less_def split: if_splits)

lemma apply_op_invariant:
  "apply_op self x = Some self' \<Longrightarrow>
   num_reserved_resources self \<le> num_total_resources self \<Longrightarrow>
   num_reserved_resources self' \<le> num_total_resources self' \<and>
   num_total_resources self' = num_total_resources self"
  using counting_semaphore_take_le [of self self'] counting_semaphore_release_le [of self]
  by (cases x) (auto simp add: counting_semaphore_release_total)

lemma run_ops_invariant:
  "run_ops self ops = Some self' \<Longrightarrow>
   num_reserved_resources self \<le> num_total_resources self \<Longrightarrow>
   num_reserved_resources self' \<le> num_total_resources self' \<and>
   num_total_resources self' = num_total_resources self"
proof (induction ops arbitrary: self)
  case Nil
  then show ?case by simp
next
  case (Cons x xs)
  from Cons.prems(1) obtain mid where
    mid: "apply_op self x = Some mid" and rest: "run_ops mid xs = Some self'"
    by (auto split: option.splits)
  from apply_op_invariant [OF mid Cons.prems(2)]
  have inv: "num_reserved_resources mid \<le> num_total_resources mid"
    and tot: "num_total_resources mid = num_total_resources self" by blast+
  from Cons.IH [OF rest inv]
  have "num_reserved_resources self' \<le> num_total_resources self'"
    and "num_total_resources self' = num_total_resources mid" by blast+
  with tot show ?case by metis
qed

lemma release_funpow_uint:
  "uint (num_reserved_resources ((counting_semaphore_release ^^ k) self))
     = max (uint (num_reserved_resources self) - int k) 0"
proof (induction k)
  case 0
  then show ?case by simp
next
  case (Suc k)
  then show ?case by (simp add: counting_semaphore_release_uint)
qed

lemma release_funpow_total:
  "num_total_resources ((counting_semaphore_release ^^ k) self) = num_total_resources self"
  by (induction k) (simp_all add: counting_semaphore_release_total)

lemma release_funpow_zero:
  "num_reserved_resources self = 0 \<Longrightarrow> (counting_semaphore_release ^^ k) self = self"
  by (induction k) (simp_all add: counting_semaphore_release_def)


text \<open>
  Claim C2. In every state that a sequence of \<open>counting_semaphore_take\<close> and
  \<open>counting_semaphore_release\<close> calls reaches from a semaphore with no resource reserved,
  the reserved count is between 0 and the total count, which stays the one given at the start.
  There a take returns exactly when the reserved count is below the total, and then the reserved
  count has grown by one (the 16-bit increment does not wrap); a release leaves the reserved
  count at the maximum of its old value minus one and 0.
\<close>

theorem counting_semaphore_invariant:
  "run_ops \<lparr>num_reserved_resources = 0, num_total_resources = capacity\<rparr> ops = Some self \<Longrightarrow>
     num_total_resources self = capacity \<and>
     0 \<le> uint (num_reserved_resources self) \<and>
     uint (num_reserved_resources self) \<le> uint capacity \<and>
     (counting_semaphore_take self \<noteq> None) = (uint (num_reserved_resources self) < uint capacity) \<and>
     (\<forall>self'. counting_semaphore_take self = Some self' \<longrightarrow>
        uint (num_reserved_resources self') = uint (num_reserved_resources self) + 1 \<and>
        num_total_resources self' = capacity) \<and>
     uint (num_reserved_resources (counting_semaphore_release self))
        = max (uint (num_reserved_resources self) - 1) 0 \<and>
     num_total_resources (counting_semaphore_release self) = capacity"
proof -
  assume run: "run_ops \<lparr>num_reserved_resources = 0, num_total_resources = capacity\<rparr> ops = Some self"
  have inv: "num_reserved_resources self \<le> num_total_resources self"
    and tot: "num_total_resources self = capacity"
    using run_ops_invariant [OF run] by auto
  have enabled: "(counting_semaphore_take self \<noteq> None)
                  = (uint (num_reserved_resources self) < uint capacity)"
    using tot by (simp add: counting_semaphore_take_eq word_less_def)
  have incr: "\<forall>self'. counting_semaphore_take self = Some self' \<longrightarrow>
        uint (num_reserved_resources self') = uint (num_reserved_resources self) + 1 \<and>
        num_total_resources self' = capacity"
    using tot uint_incr [of "num_reserved_resources self" "num_total_resources self"]
    by (auto simp add: counting_semaphore_take_eq split: if_splits)
  show ?thesis
    using inv tot enabled incr counting_semaphore_release_uint [of self]
    by (simp add: counting_semaphore_release_total word_le_def)
qed

theorem counting_semaphore_invariant_witness:
  "run_ops \<lparr>num_reserved_resources = 0, num_total_resources = 2\<rparr> [Take, Take, Release]
     = Some \<lparr>num_reserved_resources = 1, num_total_resources = 2\<rparr> \<and>
   uint (1::u16) \<le> uint (2::u16) \<and>
   counting_semaphore_take \<lparr>num_reserved_resources = 1, num_total_resources = 2\<rparr> \<noteq> None \<and>
   uint (num_reserved_resources
          (counting_semaphore_release \<lparr>num_reserved_resources = 1, num_total_resources = 2\<rparr>)) = 0"
proof -
  have run: "run_ops \<lparr>num_reserved_resources = 0, num_total_resources = 2\<rparr> [Take, Take, Release]
     = Some \<lparr>num_reserved_resources = 1, num_total_resources = 2\<rparr>"
    by (simp add: counting_semaphore_take_eq counting_semaphore_release_def)
  show ?thesis
    using run counting_semaphore_invariant [OF run] by simp
qed

text \<open>
  Claim C4. After every sequence of take and release calls on a semaphore that started with no
  resource reserved, the values returned by \<open>counting_semaphore_num_reserved\<close> and
  \<open>counting_semaphore_num_available\<close> add up, as numbers, to the total count the
  semaphore was created with.
\<close>

theorem reserved_plus_available:
  "run_ops \<lparr>num_reserved_resources = 0, num_total_resources = capacity\<rparr> ops = Some self \<Longrightarrow>
     unat (counting_semaphore_num_reserved self) + unat (counting_semaphore_num_available self)
       = unat capacity"
proof -
  assume run: "run_ops \<lparr>num_reserved_resources = 0, num_total_resources = capacity\<rparr> ops = Some self"
  have inv: "num_reserved_resources self \<le> num_total_resources self"
    and tot: "num_total_resources self = capacity"
    using run_ops_invariant [OF run] by auto
  have "unat (num_total_resources self - num_reserved_resources self)
          = unat (num_total_resources self) - unat (num_reserved_resources self)"
    using inv by (rule unat_sub)
  moreover have "unat (num_reserved_resources self) \<le> unat (num_total_resources self)"
    using inv by (simp add: word_le_nat_alt)
  ultimately show ?thesis
    using tot
    by (simp add: counting_semaphore_num_reserved_def counting_semaphore_num_available_def)
qed

theorem reserved_plus_available_witness:
  "run_ops \<lparr>num_reserved_resources = 0, num_total_resources = 3\<rparr> [Take, Release, Release, Take, Take]
     = Some \<lparr>num_reserved_resources = 2, num_total_resources = 3\<rparr> \<and>
   unat (counting_semaphore_num_reserved \<lparr>num_reserved_resources = 2, num_total_resources = 3\<rparr>)
     + unat (counting_semaphore_num_available \<lparr>num_reserved_resources = 2, num_total_resources = 3\<rparr>)
     = unat (3::u16)"
proof -
  have run: "run_ops \<lparr>num_reserved_resources = 0, num_total_resources = 3\<rparr>
               [Take, Release, Release, Take, Take]
     = Some \<lparr>num_reserved_resources = 2, num_total_resources = 3\<rparr>"
    by (simp add: counting_semaphore_take_eq counting_semaphore_release_def)
  show ?thesis
    using run reserved_plus_available [OF run] by simp
qed

text \<open>
  Claim C8. \<open>counting_semaphore_new\<close> returns the null pointer exactly when the requested
  number of resources is 0 or \<open>malloc\<close> fails, and then the heap is as before. Otherwise it
  returns the address \<open>malloc\<close> gave, and the heap holds there a semaphore with no resource
  reserved and the requested total.
\<close>

theorem counting_semaphore_new_result:
  "(fst (counting_semaphore_new malloc h capacity) = None) = (capacity = 0 \<or> malloc h = None) \<and>
   (fst (counting_semaphore_new malloc h capacity) = None \<longrightarrow>
      snd (counting_semaphore_new malloc h capacity) = h) \<and>
   (\<forall>self. fst (counting_semaphore_new malloc h capacity) = Some self \<longrightarrow>
      malloc h = Some self \<and>
      snd (counting_semaphore_new malloc h capacity)
        = h(self \<mapsto> \<lparr>num_reserved_resources = 0, num_total_resources = capacity\<rparr>))"
  by (auto simp add: counting_semaphore_new_def split: option.splits)

theorem counting_semaphore_new_result_witness:
  "fst (counting_semaphore_new (\<lambda>h. Some 7) Map.empty 3) = Some 7 \<and>
   snd (counting_semaphore_new (\<lambda>h. Some 7) Map.empty 3) 7
     = Some \<lparr>num_reserved_resources = 0, num_total_resources = 3\<rparr> \<and>
   fst (counting_semaphore_new (\<lambda>h. Some 7) Map.empty 0) = None \<and>
   snd (counting_semaphore_new (\<lambda>h. Some 7) Map.empty 0) = Map.empty \<and>
   fst (counting_semaphore_new (\<lambda>h. None) Map.empty 3) = None \<and>
   snd (counting_semaphore_new (\<lambda>h. None) Map.empty 3) = Map.empty"
proof -
  have a: "fst (counting_semaphore_new (\<lambda>h. Some 7) Map.empty 3) = Some 7"
    using counting_semaphore_new_result [of "\<lambda>h. Some 7" Map.empty 3]
    by (cases "fst (counting_semaphore_new (\<lambda>h. Some 7) Map.empty 3)") simp_all
  show ?thesis
    using a counting_semaphore_new_result [of "\<lambda>h. Some 7" Map.empty 3]
      counting_semaphore_new_result [of "\<lambda>h. Some 7" Map.empty 0]
      counting_semaphore_new_result [of "\<lambda>h. None" Map.empty 3]
    by simp
qed

text \<open>
  Claim C9. After \<open>k\<close> calls of \<open>counting_semaphore_release\<close> the reserved count is the
  old count minus \<open>k\<close>, stopping at 0 (for one call: one less when the count was positive,
  unchanged when it was 0); the total count is untouched, and on a semaphore with no resource
  reserved any number of releases changes nothing.
\<close>

theorem counting_semaphore_release_clamped:
  "uint (num_reserved_resources ((counting_semaphore_release ^^ k) self))
      = max (uint (num_reserved_resources self) - int k) 0 \<and>
   num_total_resources ((counting_semaphore_release ^^ k) self) = num_total_resources self \<and>
   (num_reserved_resources self = 0 \<longrightarrow> (counting_semaphore_release ^^ k) self = self)"
  by (simp add: release_funpow_uint release_funpow_total release_funpow_zero)

theorem counting_semaphore_release_clamped_witness:
  "uint (num_reserved_resources
      ((counting_semaphore_release ^^ 1) \<lparr>num_reserved_resources = 2, num_total_resources = 3\<rparr>)) = 1 \<and>
   uint (num_reserved_resources
      ((counting_semaphore_release ^^ 5) \<lparr>num_reserved_resources = 2, num_total_resources = 3\<rparr>)) = 0 \<and>
   (counting_semaphore_release ^^ 5) \<lparr>num_reserved_resources = 0, num_total_resources = 3\<rparr>
      = \<lparr>num_reserved_resources = 0, num_total_resources = 3\<rparr>"
  using counting_semaphore_release_clamped
           [of 1 "\<lparr>num_reserved_resources = 2, num_total_resources = 3\<rparr>"]
        counting_semaphore_release_clamped
           [of 5 "\<lparr>num_reserved_resources = 2, num_total_resources = 3\<rparr>"]
        counting_semaphore_release_clamped
           [of 5 "\<lparr>num_reserved_resources = 0, num_total_resources = 3\<rparr>"]
  by simp


subsection \<open>The C++ class template against the C functions\<close>

lemma cpp_take_eq:
  "cpp_take n r =
     map_option num_reserved_resources
       (counting_semaphore_take \<lparr>num_reserved_resources = r, num_total_resources = n\<rparr>)"
  by (simp add: cpp_take_def cpp_take_loop_eq counting_semaphore_take_eq)

lemma cpp_release_eq:
  "cpp_release n r =
     num_reserved_resources
       (counting_semaphore_release \<lparr>num_reserved_resources = r, num_total_resources = n\<rparr>)"
  by (simp add: cpp_release_def counting_semaphore_release_def)

lemma cpp_accessors_eq:
  "cpp_num_reserved_resources n r =
     counting_semaphore_num_reserved \<lparr>num_reserved_resources = r, num_total_resources = n\<rparr>"
  "cpp_num_available_resources n r =
     counting_semaphore_num_available \<lparr>num_reserved_resources = r, num_total_resources = n\<rparr>"
  by (simp_all add: cpp_num_reserved_resources_def cpp_num_available_resources_def
      counting_semaphore_num_reserved_def counting_semaphore_num_available_def)

subsection \<open>A counting semaphore of one resource\<close>

lemma slot_rel_take:
  assumes "sem_id \<le> 31" and "slot_rel sem_id self s"
  shows "counting_semaphore_take self =
           (if bit s (unat sem_id) then None
            else Some \<lparr>num_reserved_resources = 1, num_total_resources = 1\<rparr>)"
  using assms(2)
  by (cases self) (simp add: slot_rel_def counting_semaphore_take_eq)

lemma slot_rel_release:
  assumes "slot_rel sem_id self s"
  shows "counting_semaphore_release self = \<lparr>num_reserved_resources = 0, num_total_resources = 1\<rparr>"
  using assms
  by (cases self) (simp add: slot_rel_def counting_semaphore_release_def)

text \<open>
  Claim C3. A counting semaphore with one resource and one bit of the binary semaphores start
  related (nothing reserved, bit clear) and stay related: in related states both takes return
  exactly when the bit is clear, their results are related again with the bit set and the
  resource reserved, and both releases lead to related states with the bit clear.
\<close>

theorem capacity_one_matches_binary_slot:
  "slot_rel sem_id \<lparr>num_reserved_resources = 0, num_total_resources = 1\<rparr> 0 \<and>
   (sem_id \<le> 31 \<and> slot_rel sem_id self binary_semaphores \<longrightarrow>
      (counting_semaphore_take self \<noteq> None) = (\<not> bit binary_semaphores (unat sem_id)) \<and>
      (binary_semaphore_take binary_semaphores sem_id \<noteq> None)
         = (\<not> bit binary_semaphores (unat sem_id)) \<and>
      (\<forall>self' r. counting_semaphore_take self = Some self' \<and>
                 binary_semaphore_take binary_semaphores sem_id = Some r \<longrightarrow>
          fst r \<and> bit (snd r) (unat sem_id) \<and> slot_rel sem_id self' (snd r)) \<and>
      fst (binary_semaphore_release binary_semaphores sem_id) \<and>
      \<not> bit (snd (binary_semaphore_release binary_semaphores sem_id)) (unat sem_id) \<and>
      slot_rel sem_id (counting_semaphore_release self)
        (snd (binary_semaphore_release binary_semaphores sem_id)))"
proof (intro conjI impI)
  show "slot_rel sem_id \<lparr>num_reserved_resources = 0, num_total_resources = 1\<rparr> 0"
    by (simp add: slot_rel_def)
next
  assume a: "sem_id \<le> 31 \<and> slot_rel sem_id self binary_semaphores"
  then have v: "sem_id \<le> 31" and r: "slot_rel sem_id self binary_semaphores" by simp_all
  note n = sem_id_valid [OF v]
  show "(counting_semaphore_take self \<noteq> None) = (\<not> bit binary_semaphores (unat sem_id))"
    by (simp add: slot_rel_take [OF v r])
  show "(binary_semaphore_take binary_semaphores sem_id \<noteq> None)
         = (\<not> bit binary_semaphores (unat sem_id))"
    by (auto simp add: binary_semaphore_take_valid [OF v])
  show "\<forall>self' r. counting_semaphore_take self = Some self' \<and>
                 binary_semaphore_take binary_semaphores sem_id = Some r \<longrightarrow>
          fst r \<and> bit (snd r) (unat sem_id) \<and> slot_rel sem_id self' (snd r)"
    using n
    by (auto simp add: slot_rel_take [OF v r] binary_semaphore_take_valid [OF v]
        slot_rel_def bit_or_push_bit split: if_splits)
  show "fst (binary_semaphore_release binary_semaphores sem_id)"
    by (simp add: binary_semaphore_release_valid [OF v])
  show "\<not> bit (snd (binary_semaphore_release binary_semaphores sem_id)) (unat sem_id)"
    using n by (simp add: binary_semaphore_release_valid [OF v] bit_and_not_push_bit)
  show "slot_rel sem_id (counting_semaphore_release self)
        (snd (binary_semaphore_release binary_semaphores sem_id))"
    using n
    by (simp add: slot_rel_release [OF r] binary_semaphore_release_valid [OF v]
        slot_rel_def bit_and_not_push_bit)
qed

theorem capacity_one_matches_binary_slot_witness:
  "(3::u8) \<le> 31 \<and>
   slot_rel 3 \<lparr>num_reserved_resources = 0, num_total_resources = 1\<rparr> 0 \<and>
   counting_semaphore_take \<lparr>num_reserved_resources = 0, num_total_resources = 1\<rparr>
     = Some \<lparr>num_reserved_resources = 1, num_total_resources = 1\<rparr> \<and>
   binary_semaphore_take 0 3 = Some (True, 8) \<and>
   slot_rel 3 \<lparr>num_reserved_resources = 1, num_total_resources = 1\<rparr> 8 \<and>
   counting_semaphore_take \<lparr>num_reserved_resources = 1, num_total_resources = 1\<rparr> = None \<and>
   binary_semaphore_take 8 3 = None \<and>
   slot_rel 3 (counting_semaphore_release \<lparr>num_reserved_resources = 1, num_total_resources = 1\<rparr>)
     (snd (binary_semaphore_release 8 3))"
proof -
  have v: "(3::u8) \<le> 31" by simp
  have r0: "slot_rel 3 \<lparr>num_reserved_resources = 0, num_total_resources = 1\<rparr> 0"
    using capacity_one_matches_binary_slot [of 3] by simp
  have c: "counting_semaphore_take \<lparr>num_reserved_resources = 0, num_total_resources = 1\<rparr>
     = Some \<lparr>num_reserved_resources = 1, num_total_resources = 1\<rparr>"
    by (simp add: counting_semaphore_take_eq)
  have b: "binary_semaphore_take 0 3 = Some (True, 8)"
    by (simp add: binary_semaphore_take_valid)
  have r1: "slot_rel 3 \<lparr>num_reserved_resources = 1, num_total_resources = 1\<rparr> 8"
    using v r0 c b
      capacity_one_matches_binary_slot
        [of 3 "\<lparr>num_reserved_resources = 0, num_total_resources = 1\<rparr>" 0]
    by auto
  have s: "bit (8::u32) (unat (3::u8))" by simp
  have blocked: "counting_semaphore_take \<lparr>num_reserved_resources = 1, num_total_resources = 1\<rparr> = None
      \<and> binary_semaphore_take 8 3 = None"
    using v r1 s
      capacity_one_matches_binary_slot
        [of 3 "\<lparr>num_reserved_resources = 1, num_total_resources = 1\<rparr>" 8]
    by (cases "binary_semaphore_take 8 3") auto
  have rel: "slot_rel 3 (counting_semaphore_release \<lparr>num_reserved_resources = 1, num_total_resources = 1\<rparr>)
     (snd (binary_semaphore_release 8 3))"
    using v r1
      capacity_one_matches_binary_slot
        [of 3 "\<lparr>num_reserved_resources = 1, num_total_resources = 1\<rparr>" 8]
    by auto
  show ?thesis using v r0 c b r1 blocked rel by simp
qed

subsection \<open>Two threads on a semaphore of one resource\<close>

lemma thread_step_take:
  "counting_semaphore_take self = Some self' \<Longrightarrow>
     thread_step self Line105 = (self, Line106) \<and> thread_step self Line106 = (self', Reserved)"
  by (auto simp add: counting_semaphore_take_eq split: if_splits)

lemma thread_step_blocked:
  "counting_semaphore_take self = None \<Longrightarrow> thread_step self Line105 = (self, Line105)"
  by (auto simp add: counting_semaphore_take_eq split: if_splits)

text \<open>
  Claim C1, evaluated on the code. Two threads share a semaphore with one resource, as in
  main\_counting\_sem.c. Thread 0 evaluates the condition of line 105 and leaves the loop, thread
  1 does the same before thread 0 has executed line 106, then each executes line 106. Both have
  completed \<open>counting_semaphore_take\<close> and neither has released: two holders and a reserved
  count of 2 on a semaphore with a total of 1.
\<close>

theorem two_threads_pass_line_105:
  "holders (run_schedule (start 1 2) [0, 1, 0, 1]) = 2 \<and>
   sem (run_schedule (start 1 2) [0, 1, 0, 1])
     = \<lparr>num_reserved_resources = 2, num_total_resources = 1\<rparr> \<and>
   pcs (run_schedule (start 1 2) [0, 1, 0, 1]) = [Reserved, Reserved]"
  by (simp add: run_schedule_def start_def step_def holders_def eval_nat_numeral)


end
